theory Spec2Isabelle
  imports Main
begin

section \<open>Text: Python \<open>str\<close> over the code points below 256\<close>

text \<open>
  A Python \<open>str\<close> is a sequence of code points and \<open>len\<close> counts code points. The model
  is \<open>string\<close> with one \<open>char\<close> per code point, which covers the code points 0..255
  (ASCII and Latin-1, so the umlauts of the German keywords: \<open>CHR 0xE4\<close> is a-umlaut,
  \<open>CHR 0xFC\<close> is u-umlaut). On this range \<open>str.lower\<close>, \<open>str.isspace\<close> and the classes
  \<open>\w\<close>, \<open>\s\<close>, \<open>\d\<close> of the \<open>re\<close> module are the tables below.
  All text fields are typed \<open>str\<close> in the source, so \<open>(x or "")\<close> is \<open>x\<close>.
\<close>

definition lower_chr :: "char \<Rightarrow> char" where
  "lower_chr c =
     (let n = (of_char c :: nat)
      in if (65 \<le> n \<and> n \<le> 90) \<or> (192 \<le> n \<and> n \<le> 222 \<and> n \<noteq> 215)
         then char_of (n + 32) else c)"

definition lower :: "string \<Rightarrow> string" where
  "lower s = map lower_chr s"

definition is_space :: "char \<Rightarrow> bool" where
  "is_space c =
     (let n = (of_char c :: nat)
      in (9 \<le> n \<and> n \<le> 13) \<or> (28 \<le> n \<and> n \<le> 32) \<or> n = 133 \<or> n = 160)"

definition is_digit :: "char \<Rightarrow> bool" where
  "is_digit c = (let n = (of_char c :: nat) in 48 \<le> n \<and> n \<le> 57)"

definition is_ascii_alpha :: "char \<Rightarrow> bool" where
  "is_ascii_alpha c =
     (let n = (of_char c :: nat) in (65 \<le> n \<and> n \<le> 90) \<or> (97 \<le> n \<and> n \<le> 122))"

definition is_word :: "char \<Rightarrow> bool" where
  "is_word c =
     (let n = (of_char c :: nat)
      in is_digit c \<or> is_ascii_alpha c \<or> n = 95 \<or> n = 170 \<or> n = 178 \<or> n = 179
         \<or> n = 181 \<or> n = 185 \<or> n = 186 \<or> (188 \<le> n \<and> n \<le> 190)
         \<or> (192 \<le> n \<and> n \<le> 214) \<or> (216 \<le> n \<and> n \<le> 246) \<or> 248 \<le> n)"

definition strip :: "string \<Rightarrow> string" where
  "strip s = rev (dropWhile is_space (rev (dropWhile is_space s)))"

fun startswith :: "string \<Rightarrow> string \<Rightarrow> bool" where
  "startswith s [] = True"
| "startswith [] (p # ps) = False"
| "startswith (x # xs) (p # ps) = (if x = p then startswith xs ps else False)"

text \<open>\<open>str_in sub s\<close> is Python's \<open>sub in s\<close>.\<close>

fun str_in :: "string \<Rightarrow> string \<Rightarrow> bool" where
  "str_in sub [] = (sub = [])"
| "str_in sub (x # xs) = (if startswith (x # xs) sub then True else str_in sub xs)"

text \<open>\<open>str(n)\<close> for an integer, as the f-strings print it.\<close>

fun digits :: "nat \<Rightarrow> string" where
  "digits n = (if n < 10 then [char_of (48 + n)] else digits (n div 10) @ [char_of (48 + n mod 10)])"

declare digits.simps [simp del]

definition str_of_int :: "int \<Rightarrow> string" where
  "str_of_int i = (if i < 0 then CHR ''-'' # digits (nat (- i)) else digits (nat i))"

section \<open>Regular expressions of the \<open>re\<close> module\<close>

text \<open>
  The patterns of \<open>rules.py\<close> use literals, classes, alternation, \<open>*\<close>, \<open>+\<close>, \<open>?\<close>,
  \<open>\b\<close>, \<open>^\<close> and \<open>$\<close>. The rules only test whether \<open>search\<close> or \<open>match\<close> finds a match,
  so the matcher decides existence of a match: a backtracking matcher in continuation
  style, whose state is the character before the position (\<open>None\<close> at the start of the
  text) and the rest of the text.
\<close>

datatype rx =
    Void
  | Eps
  | Chr char
  | Cls "char \<Rightarrow> bool"
  | Seq rx rx
  | Alt rx rx
  | Star rx
  | Bnd
  | Bos
  | Eos

type_synonym rx_cont = "char option \<Rightarrow> string \<Rightarrow> bool"

fun star :: "nat \<Rightarrow> (rx_cont \<Rightarrow> rx_cont) \<Rightarrow> rx_cont \<Rightarrow> rx_cont" where
  "star 0 f k p s = k p s"
| "star (Suc n) f k p s = (if k p s then True else f (star n f k) p s)"

definition word_before :: "char option \<Rightarrow> bool" where
  "word_before p = (case p of None \<Rightarrow> False | Some c \<Rightarrow> is_word c)"

definition word_after :: "string \<Rightarrow> bool" where
  "word_after s = (case s of [] \<Rightarrow> False | c # _ \<Rightarrow> is_word c)"

text \<open>
  \<open>rx_m i r k p s\<close>: some match of \<open>r\<close> at the position leaves a state that \<open>k\<close> accepts;
  \<open>i\<close> is the flag \<open>re.I\<close>. Each iteration of a star that matters consumes a character,
  so \<open>length s\<close> iterations are enough. \<open>$\<close> matches at the end and before a final newline.
\<close>

primrec rx_m :: "bool \<Rightarrow> rx \<Rightarrow> rx_cont \<Rightarrow> rx_cont" where
  "rx_m i Void k p s = False"
| "rx_m i Eps k p s = k p s"
| "rx_m i (Chr c) k p s =
     (case s of [] \<Rightarrow> False
      | x # xs \<Rightarrow> if (if i then lower_chr x = lower_chr c else x = c)
                  then k (Some x) xs else False)"
| "rx_m i (Cls P) k p s =
     (case s of [] \<Rightarrow> False | x # xs \<Rightarrow> if P x then k (Some x) xs else False)"
| "rx_m i (Seq a b) k p s = rx_m i a (rx_m i b k) p s"
| "rx_m i (Alt a b) k p s = (if rx_m i a k p s then True else rx_m i b k p s)"
| "rx_m i (Star a) k p s = star (length s) (rx_m i a) k p s"
| "rx_m i Bnd k p s = (if word_before p \<noteq> word_after s then k p s else False)"
| "rx_m i Bos k p s = (if p = None then k p s else False)"
| "rx_m i Eos k p s = (if s = [] \<or> s = [CHR 0x0A] then k p s else False)"

definition accept :: rx_cont where
  "accept p s = True"

type_synonym pattern = "rx \<times> bool"

definition re_compile :: "rx \<Rightarrow> bool \<Rightarrow> pattern" where
  "re_compile r ignorecase = (r, ignorecase)"

definition re_match :: "pattern \<Rightarrow> string \<Rightarrow> bool" where
  "re_match pat s = rx_m (snd pat) (fst pat) accept None s"

fun search_from :: "pattern \<Rightarrow> char option \<Rightarrow> string \<Rightarrow> bool" where
  "search_from pat p [] = rx_m (snd pat) (fst pat) accept p []"
| "search_from pat p (x # xs) =
     (if rx_m (snd pat) (fst pat) accept p (x # xs) then True
      else search_from pat (Some x) xs)"

definition re_search :: "pattern \<Rightarrow> string \<Rightarrow> bool" where
  "re_search pat s = search_from pat None s"

text \<open>Pattern syntax: a literal word, \<open>r+\<close>, \<open>r?\<close>, \<open>r1|...|rn\<close>, \<open>r1 ... rn\<close>.\<close>

definition Lit :: "string \<Rightarrow> rx" where
  "Lit s = foldr (\<lambda>c r. Seq (Chr c) r) s Eps"

definition More1 :: "rx \<Rightarrow> rx" where
  "More1 r = Seq r (Star r)"

definition Opt :: "rx \<Rightarrow> rx" where
  "Opt r = Alt r Eps"

definition Alts :: "rx list \<Rightarrow> rx" where
  "Alts rs = foldr Alt rs Void"

definition Seqs :: "rx list \<Rightarrow> rx" where
  "Seqs rs = foldr Seq rs Eps"

definition Words :: "string list \<Rightarrow> rx" where
  "Words ws = Alts (map Lit ws)"

section \<open>The patterns of \<open>rules.py\<close>\<close>

definition YES_PAT :: pattern where
  "YES_PAT = re_compile
     (Seqs [Bnd,
            Words [''ja'', ''yes'', ''y'', ''best'' @ [CHR 0xE4] @ ''tigt'', ''confirmed''],
            Bnd]) True"

definition NO_PAT :: pattern where
  "NO_PAT = re_compile (Seqs [Bnd, Words [''nein'', ''no'', ''n''], Bnd]) True"

definition not_at_or_space :: "char \<Rightarrow> bool" where
  "not_at_or_space c = (c \<noteq> CHR ''@'' \<and> \<not> is_space c)"

definition EMAIL_PAT :: pattern where
  "EMAIL_PAT = re_compile
     (Seqs [Bos, More1 (Cls not_at_or_space), Chr CHR ''@'', More1 (Cls not_at_or_space),
            Chr CHR ''.'', More1 (Cls not_at_or_space), Eos]) False"

definition any_chr :: "char \<Rightarrow> bool" where
  "any_chr c = (c \<noteq> CHR 0x0A)"

definition PHONE_PAT :: pattern where
  "PHONE_PAT = re_compile
     (Seqs [Cls is_digit, Star (Cls any_chr), Cls is_digit, Star (Cls any_chr),
            Cls is_digit, Star (Cls any_chr), Cls is_digit, Star (Cls any_chr),
            Cls is_digit, Star (Cls any_chr), Cls is_digit, Star (Cls any_chr),
            Cls is_digit]) False"

definition not_space :: "char \<Rightarrow> bool" where
  "not_space c = (\<not> is_space c)"

definition URL_PAT :: pattern where
  "URL_PAT = re_compile
     (Seqs [Alt (Seqs [Lit ''http'', Opt (Chr CHR ''s''), Lit ''://'']) (Lit ''www.''),
            More1 (Cls not_space)]) True"

definition filename_chr :: "char \<Rightarrow> bool" where
  "filename_chr c = (is_word c \<or> c = CHR ''-'' \<or> c = CHR ''.'')"

definition FILENAME_PAT :: pattern where
  "FILENAME_PAT = re_compile
     (Seqs [Bnd, More1 (Cls filename_chr), Chr CHR ''.'',
            Words [''pdf'', ''docx'', ''doc'', ''xlsx'', ''xls'', ''pptx'', ''ppt'', ''zip'',
                   ''png'', ''jpg'', ''jpeg'', ''csv''],
            Bnd]) True"

definition REFUSAL_PAT :: pattern where
  "REFUSAL_PAT = re_compile
     (Seqs [Bnd,
            Words [''refusal'', ''refuse'', ''decline'', ''not to answer'', ''no answer''],
            Bnd]) True"

definition spaces :: rx where
  "spaces = Star (Cls is_space)"

definition SIGNATURE_PAT :: pattern where
  "SIGNATURE_PAT = re_compile
     (Alts [Lit ''signature'', Lit ''signatur'', Lit ''unterschrift'',
            Seqs [Lit ''name'', spaces, Chr CHR ''&'', spaces, Lit ''position''],
            Seqs [Lit ''name'', spaces, Lit ''and'', spaces, Lit ''position''],
            Seqs [Lit ''ort'', spaces, Chr CHR ''/'', spaces, Lit ''datum''],
            Seqs [Lit ''place'', spaces, Chr CHR ''/'', spaces, Lit ''date'']]) True"

definition REFERENCE_PAT :: pattern where
  "REFERENCE_PAT = re_compile
     (Alt (Words [''see'', ''refer'', ''reference'', ''attached'', ''attachment'', ''annex'',
                  ''section'', ''chapter'', ''appendix'', ''siehe'', ''vgl.'', ''verweis'',
                  ''anhang'', ''beigef'' @ [CHR 0xFC] @ ''gt'', ''abschnitt'', ''kapitel'',
                  ''ziffer''])
          (Seqs [Bnd, More1 (Cls is_digit),
                 More1 (Seq (Chr CHR ''.'') (More1 (Cls is_digit))), Bnd])) True"

text \<open>The three patterns written inline in \<open>looks_like_question\<close>, \<open>has_number_and_text\<close>
  and \<open>validate_row\<close>.\<close>

definition QUESTION_VERB_PAT :: pattern where
  "QUESTION_VERB_PAT = re_compile
     (Seqs [Bnd,
            Words [''beschreiben'', ''erl'' @ [CHR 0xE4] @ ''utern'',
                   ''best'' @ [CHR 0xE4] @ ''tigen'', ''informieren'', ''detaillieren'',
                   ''teilen''],
            Bnd]) True"

definition DESCRIPTIVE_VERB_PAT :: pattern where
  "DESCRIPTIVE_VERB_PAT = re_compile
     (Seqs [Bnd,
            Words [''beschreiben'', ''erl'' @ [CHR 0xE4] @ ''utern'', ''detaillieren''],
            Bnd]) True"

definition DIGIT_PAT :: pattern where
  "DIGIT_PAT = re_compile (Cls is_digit) False"

definition is_letter :: "char \<Rightarrow> bool" where
  "is_letter c =
     (is_ascii_alpha c \<or> c = CHR 0xC4 \<or> c = CHR 0xD6 \<or> c = CHR 0xDC
      \<or> c = CHR 0xE4 \<or> c = CHR 0xF6 \<or> c = CHR 0xFC)"

definition LETTER_PAT :: pattern where
  "LETTER_PAT = re_compile (Cls is_letter) False"

section \<open>Data model (\<open>models.py\<close>, \<open>RuleConfig\<close>)\<close>

text \<open>The values a \<open>details\<close> dictionary and the dictionary of \<open>to_dict\<close> hold.\<close>

datatype pyval =
    PNone
  | PBool bool
  | PInt int
  | PStr string
  | PDict "(string \<times> pyval) list"

type_synonym pydict = "(string \<times> pyval) list"

record QuestionRow =
  sheet :: string
  row_idx :: int
  question_id :: "string option"
  question_text :: string
  answer_text :: string
  expected_text :: string

text \<open>\<open>Finding\<close> repeats the six fields of \<open>QuestionRow\<close> under the same names and adds three.\<close>

record Finding = QuestionRow +
  status :: string
  reason :: string
  details :: "pydict option"

record RuleConfig =
  forbidden_tokens :: "string list"
  min_len_descriptive :: int

definition RuleConfig_default :: RuleConfig where
  "RuleConfig_default = \<lparr>forbidden_tokens =
                           [''n/a'', ''n.a'', ''na'', ''not applicable'', ''tbd'', ''to be defined'',
                            ''later'', ''unknown'', ''k.a'', ''keine angabe''],
                        min_len_descriptive = 20\<rparr>"

section \<open>Classifiers and detectors (\<open>rules.py\<close>)\<close>

definition looks_like_question :: "string \<Rightarrow> bool" where
  "looks_like_question text =
     (let t = strip text
      in if t = [] then False
         else if list_ex (startswith (lower t))
                   [''bitte'', ''please'', ''sofern'', ''gab'', ''wurde'', ''hat'', ''ist'',
                    ''nutzen'', ''wird'']
              then True
         else if str_in ''?'' t then True
         else if re_search QUESTION_VERB_PAT t then True
         else False)"

definition looks_like_note :: "string \<Rightarrow> string \<Rightarrow> bool" where
  "looks_like_note expected qtext =
     (let e = lower (strip expected); q = lower (strip qtext)
      in if e = [] then False
         else if list_ex (startswith e)
                   [''please note'', ''bitte beachten'', ''hinweis'', ''note:'',
                    ''the following documents'']
              then True
         else if List.member [''prozesse'', ''dokumentation'', ''outsourcing''] q
                 \<and> list_ex (\<lambda>s. str_in s e) [''please note'', ''bitte'', ''note'']
              then True
         else False)"

definition is_signature_row :: "QuestionRow \<Rightarrow> bool" where
  "is_signature_row row =
     (let q = lower (question_text row); e = lower (expected_text row)
      in re_search SIGNATURE_PAT q \<or> re_search SIGNATURE_PAT e)"

definition is_allgemeiner_sheet :: "string \<Rightarrow> bool" where
  "is_allgemeiner_sheet sh = (let s = lower sh in str_in ''allgemein'' s \<or> str_in ''general'' s)"

definition is_fondsmanagement_sheet :: "string \<Rightarrow> bool" where
  "is_fondsmanagement_sheet sh =
     (let s = lower sh in str_in ''fondsmanagement'' s \<or> str_in ''fund management'' s)"

definition is_innenrevision_sheet :: "string \<Rightarrow> bool" where
  "is_innenrevision_sheet sh = (let s = lower sh in str_in ''innenrevision'' s)"

definition is_regta_sheet :: "string \<Rightarrow> bool" where
  "is_regta_sheet sh = (let s = lower sh in str_in ''regta'' s)"

definition is_zv_fobu_sheet :: "string \<Rightarrow> bool" where
  "is_zv_fobu_sheet sh = (let s = lower sh in str_in ''zv'' s \<and> str_in ''fobu'' s)"

definition is_verwahrstelle_sheet :: "string \<Rightarrow> bool" where
  "is_verwahrstelle_sheet sh = (let s = lower sh in str_in ''verwahrstelle'' s)"

definition expected_requires_filename :: "string \<Rightarrow> bool" where
  "expected_requires_filename expected =
     (let e = lower expected
      in list_ex (\<lambda>k. str_in k e) [''name of a file'', ''name of file'', ''dateiname''])"

definition expected_requires_number_and_text :: "string \<Rightarrow> bool" where
  "expected_requires_number_and_text expected =
     (let e = lower expected
      in str_in ''number and text obligatory'' e \<or> str_in ''nummer und text'' e)"

definition expected_content_not_relevant :: "string \<Rightarrow> bool" where
  "expected_content_not_relevant expected =
     (let e = lower expected
      in str_in ''content not relevant'' e \<or> str_in ''fields must only be filled'' e)"

definition expected_disallow_reference :: "string \<Rightarrow> bool" where
  "expected_disallow_reference expected =
     (let e = lower expected
      in str_in ''reference to a document is not acceptable'' e
         \<or> str_in ''reference to another document is not acceptable'' e
         \<or> str_in ''only reference to another document is also not acceptable'' e)"

definition expected_disallow_refusal :: "string \<Rightarrow> bool" where
  "expected_disallow_refusal expected =
     (let e = lower expected
      in str_in ''refusal is not acceptable'' e
         \<or> str_in ''any sort of refusal is not acceptable'' e
         \<or> (str_in ''not acceptable'' e \<and> str_in ''n/a'' e))"

definition looks_like_email :: "string \<Rightarrow> bool" where
  "looks_like_email answer = re_match EMAIL_PAT (strip answer)"

definition looks_like_phone :: "string \<Rightarrow> bool" where
  "looks_like_phone answer = re_search PHONE_PAT answer"

definition looks_like_url :: "string \<Rightarrow> bool" where
  "looks_like_url answer =
     (let a = strip answer
      in re_search URL_PAT a \<or> (str_in ''.'' a \<and> \<not> str_in '' '' a \<and> 4 \<le> length a))"

definition looks_like_filename :: "string \<Rightarrow> bool" where
  "looks_like_filename answer = re_search FILENAME_PAT answer"

definition has_number_and_text :: "string \<Rightarrow> bool" where
  "has_number_and_text answer =
     (let a = strip answer in re_search DIGIT_PAT a \<and> re_search LETTER_PAT a)"

definition expected_yes_no :: "string \<Rightarrow> string option" where
  "expected_yes_no expected =
     (let e = lower expected
      in if str_in ''ja'' e \<and> \<not> str_in ''nein'' e then Some ''YES''
         else if str_in ''nein'' e \<and> \<not> str_in ''ja'' e then Some ''NO''
         else None)"

definition should_validate :: "QuestionRow \<Rightarrow> bool" where
  "should_validate row =
     (let expected = expected_text row
      in if looks_like_note expected (question_text row) then False
         else if is_signature_row row then True
         else if looks_like_question (question_text row) then True
         else let e_lower = lower expected
              in if str_in ''[text]'' e_lower then True
                 else if list_ex (\<lambda>k. str_in k e_lower)
                           [''obligatory'', ''not acceptable'', ''must'',
                            ''fields must only be filled'', ''number and text obligatory'']
                      then True
                 else if expected_yes_no expected \<noteq> None then True
                 else False)"

definition is_mandatory :: "QuestionRow \<Rightarrow> bool" where
  "is_mandatory row =
     (let e = lower (expected_text row); q = lower (question_text row)
      in if str_in ''obligatory'' e \<or> str_in ''not acceptable'' e \<or> str_in ''must'' e then True
         else if strip e \<noteq> [] then True
         else if startswith q ''name der'' \<or> startswith q ''e-mail'' \<or> startswith q ''telefon''
              then True
         else False)"

definition detect_reference :: "string \<Rightarrow> bool" where
  "detect_reference answer = re_search REFERENCE_PAT answer"

definition contains_forbidden :: "string \<Rightarrow> RuleConfig \<Rightarrow> string option" where
  "contains_forbidden answer cfg =
     (let a = lower (strip answer)
      in if a = [] then None
         else List.find (\<lambda>tok. str_in tok a) (forbidden_tokens cfg))"

section \<open>The decision cascade \<open>validate_row\<close>\<close>

text \<open>
  Every \<open>Finding(...)\<close> that \<open>rules.py\<close> and the drivers build passes the six fields of the
  row unchanged (\<open>sheet=row.sheet\<close>, ..., \<open>expected_text=row.expected_text\<close>) and a
  dictionary literal for \<open>details\<close>; \<open>finding\<close> is that constructor call.
\<close>

definition finding :: "QuestionRow \<Rightarrow> string \<Rightarrow> string \<Rightarrow> pydict \<Rightarrow> Finding" where
  "finding row st rs dt =
     \<lparr>sheet = sheet row, row_idx = row_idx row, question_id = question_id row,
      question_text = question_text row, answer_text = answer_text row,
      expected_text = expected_text row, status = st, reason = rs, details = Some dt\<rparr>"

text \<open>
  \<open>validate_row\<close> is a sequence of guarded \<open>return\<close> statements. Each is a \<open>flow\<close>: it
  returns (a finding, or \<open>None\<close> for a row that passes) or falls through to the next
  statement; the function ends with \<open>return None\<close>.
\<close>

datatype flow = Return "Finding option" | Continue

fun first_return :: "flow list \<Rightarrow> Finding option" where
  "first_return [] = None"
| "first_return (Return r # fs) = r"
| "first_return (Continue # fs) = first_return fs"

text \<open>Python's truth value of an \<open>Optional[str]\<close>: \<open>None\<close> and \<open>""\<close> are false.\<close>

definition truthy :: "string option \<Rightarrow> bool" where
  "truthy v = (case v of None \<Rightarrow> False | Some s \<Rightarrow> s \<noteq> [])"

definition signature_step :: "QuestionRow \<Rightarrow> string \<Rightarrow> RuleConfig \<Rightarrow> flow" where
  "signature_step row answer cfg =
     (if is_signature_row row
      then (let forbidden = contains_forbidden answer cfg
            in if answer = [] \<or> truthy forbidden
               then Return (Some (finding row ''INCOMPLETE'' ''Signature/name/date is missing.''
                                    [(''expected'', PStr ''signature'')]))
               else Return None)
      else Continue)"

definition empty_step :: "QuestionRow \<Rightarrow> string \<Rightarrow> bool \<Rightarrow> flow" where
  "empty_step row answer mandatory =
     (if answer = []
      then (if mandatory
            then Return (Some (finding row ''REJECTED'' ''Mandatory field is empty.''
                                 [(''mandatory'', PBool True)]))
            else Return None)
      else Continue)"

definition forbidden_step :: "QuestionRow \<Rightarrow> string \<Rightarrow> bool \<Rightarrow> RuleConfig \<Rightarrow> flow" where
  "forbidden_step row answer mandatory cfg =
     (case contains_forbidden answer cfg of
        None \<Rightarrow> Continue
      | Some forbidden \<Rightarrow>
          if forbidden \<noteq> [] \<and> mandatory
          then Return (Some (finding row ''REJECTED''
                               (''Answer contains forbidden placeholder: '' @ [CHR 0x27]
                                  @ forbidden @ [CHR 0x27] @ ''.'')
                               [(''forbidden'', PStr forbidden)]))
          else Continue)"

definition filename_step :: "QuestionRow \<Rightarrow> string \<Rightarrow> string \<Rightarrow> flow" where
  "filename_step row answer expected =
     (if expected_requires_filename expected \<and> \<not> looks_like_filename answer
      then Return (Some (finding row ''INCOMPLETE''
                           ''Expected a filename (e.g., .pdf/.docx) but none found.''
                           [(''expected'', PStr ''filename'')]))
      else Continue)"

definition allgemeiner_step :: "QuestionRow \<Rightarrow> string \<Rightarrow> string \<Rightarrow> flow" where
  "allgemeiner_step row answer expected =
     (if is_allgemeiner_sheet (sheet row)
      then (let q_lower = lower (question_text row); e_lower = lower expected
            in if expected_requires_number_and_text expected \<and> \<not> has_number_and_text answer
               then Return (Some (finding row ''INCOMPLETE''
                                    ''Expected both a number and descriptive text.''
                                    [(''expected'', PStr ''number+text'')]))
               else if (str_in ''e-mail'' q_lower \<or> str_in ''email'' q_lower
                        \<or> str_in ''e-mail'' e_lower) \<and> \<not> looks_like_email answer
               then Return (Some (finding row ''INCOMPLETE'' ''Expected a valid email address.''
                                    [(''expected'', PStr ''email'')]))
               else if (str_in ''telefon'' q_lower \<or> str_in ''phone'' q_lower
                        \<or> str_in ''telefon'' e_lower) \<and> \<not> looks_like_phone answer
               then Return (Some (finding row ''INCOMPLETE'' ''Expected a valid phone number.''
                                    [(''expected'', PStr ''phone'')]))
               else if (str_in ''website'' q_lower \<or> str_in ''web'' q_lower)
                       \<and> \<not> looks_like_url answer
               then Return (Some (finding row ''INCOMPLETE'' ''Expected a website/URL.''
                                    [(''expected'', PStr ''url'')]))
               else if expected_content_not_relevant expected then Return None
               else Continue)
      else Continue)"

definition reference_only :: "QuestionRow \<Rightarrow> Finding" where
  "reference_only row =
     finding row ''REJECTED''
       ''Reference-only answers are not acceptable; provide substantive text.''
       [(''reference_only'', PBool True)]"

definition refusal :: "QuestionRow \<Rightarrow> Finding" where
  "refusal row =
     finding row ''REJECTED'' ''Refusal-style answers are not acceptable for this question.''
       [(''refusal'', PBool True)]"

definition fondsmanagement_step :: "QuestionRow \<Rightarrow> string \<Rightarrow> string \<Rightarrow> flow" where
  "fondsmanagement_step row answer expected =
     (if is_fondsmanagement_sheet (sheet row)
      then (if expected_disallow_reference expected
               \<and> detect_reference answer \<and> \<not> str_in ''policy'' (lower answer)
            then Return (Some (reference_only row))
            else if expected_disallow_refusal expected \<and> re_search REFUSAL_PAT answer
            then Return (Some (refusal row))
            else Continue)
      else Continue)"

definition regta_step :: "QuestionRow \<Rightarrow> string \<Rightarrow> string \<Rightarrow> flow" where
  "regta_step row answer expected =
     (if is_regta_sheet (sheet row)
      then (if expected_disallow_reference expected \<and> detect_reference answer
            then Return (Some (reference_only row))
            else if expected_disallow_refusal expected \<and> re_search REFUSAL_PAT answer
            then Return (Some (refusal row))
            else Continue)
      else Continue)"

definition zv_fobu_step :: "QuestionRow \<Rightarrow> string \<Rightarrow> string \<Rightarrow> flow" where
  "zv_fobu_step row answer expected =
     (if is_zv_fobu_sheet (sheet row)
      then (if expected_disallow_reference expected \<and> detect_reference answer
            then Return (Some (reference_only row))
            else if expected_disallow_refusal expected \<and> re_search REFUSAL_PAT answer
            then Return (Some (refusal row))
            else Continue)
      else Continue)"

definition verwahrstelle_step :: "QuestionRow \<Rightarrow> string \<Rightarrow> string \<Rightarrow> flow" where
  "verwahrstelle_step row answer expected =
     (if is_verwahrstelle_sheet (sheet row)
      then (if expected_disallow_reference expected \<and> detect_reference answer
            then Return (Some (reference_only row))
            else if expected_disallow_refusal expected \<and> re_search REFUSAL_PAT answer
            then Return (Some (refusal row))
            else Continue)
      else Continue)"

definition innenrevision_step :: "QuestionRow \<Rightarrow> string \<Rightarrow> string \<Rightarrow> flow" where
  "innenrevision_step row answer expected =
     (if is_innenrevision_sheet (sheet row)
         \<and> expected_requires_number_and_text expected \<and> \<not> has_number_and_text answer
      then Return (Some (finding row ''INCOMPLETE''
                           ''Expected both a number and descriptive text.''
                           [(''expected'', PStr ''number+text'')]))
      else Continue)"

definition reference_step :: "QuestionRow \<Rightarrow> string \<Rightarrow> flow" where
  "reference_step row answer =
     (if detect_reference answer
      then Return (Some (finding row ''NEEDS_EVIDENCE''
             ''Answer references an attachment/section; requires document evidence retrieval.''
             [(''reference_detected'', PBool True)]))
      else Continue)"

definition yes_no_step :: "QuestionRow \<Rightarrow> string \<Rightarrow> string \<Rightarrow> flow" where
  "yes_no_step row answer expected =
     (let yn = expected_yes_no expected
      in if yn = Some ''YES'' \<and> \<not> re_search YES_PAT answer
         then Return (Some (finding row ''INCOMPLETE''
                ''Expected a 'Yes/Confirmed' style answer based on model answer.''
                [(''expected'', PStr ''YES'')]))
         else if yn = Some ''NO'' \<and> \<not> re_search NO_PAT answer
         then Return (Some (finding row ''INCOMPLETE''
                ''Expected a 'No' style answer based on model answer.''
                [(''expected'', PStr ''NO'')]))
         else Continue)"

definition descriptive_step :: "QuestionRow \<Rightarrow> string \<Rightarrow> string \<Rightarrow> RuleConfig \<Rightarrow> flow" where
  "descriptive_step row answer expected cfg =
     (if (str_in ''[text]'' (lower expected)
          \<or> re_search DESCRIPTIVE_VERB_PAT (question_text row))
         \<and> int (length answer) < min_len_descriptive cfg
      then Return (Some (finding row ''INCOMPLETE''
             (''Answer is too short for a descriptive question (min ''
                @ str_of_int (min_len_descriptive cfg) @ '' chars).'')
             [(''min_len'', PInt (min_len_descriptive cfg)),
              (''actual_len'', PInt (int (length answer)))]))
      else Continue)"

definition validate_row :: "QuestionRow \<Rightarrow> RuleConfig \<Rightarrow> Finding option" where
  "validate_row row cfg =
     (if \<not> should_validate row then None
      else let answer = strip (answer_text row);
               expected = strip (expected_text row);
               mandatory = is_mandatory row
           in first_return
                [signature_step row answer cfg,
                 empty_step row answer mandatory,
                 forbidden_step row answer mandatory cfg,
                 filename_step row answer expected,
                 allgemeiner_step row answer expected,
                 fondsmanagement_step row answer expected,
                 regta_step row answer expected,
                 zv_fobu_step row answer expected,
                 verwahrstelle_step row answer expected,
                 innenrevision_step row answer expected,
                 reference_step row answer,
                 yes_no_step row answer expected,
                 descriptive_step row answer expected cfg])"



section \<open>The driver loop (\<open>cli.py\<close>, \<open>api.py\<close>) and \<open>Finding.to_dict\<close>\<close>

definition skipped :: "QuestionRow \<Rightarrow> Finding" where
  "skipped row =
     finding row ''SKIPPED'' ''Row is not a question or validation rule does not apply.''
       [(''validated'', PBool False)]"

definition passed :: "QuestionRow \<Rightarrow> Finding" where
  "passed row = finding row ''OK'' ''Passed rule checks.'' [(''validated'', PBool True)]"

text \<open>
  The loop over the rows appends to two lists: \<open>findings\<close> (the flagged rows, which the
  optional refinement reads) and \<open>results\<close> (one entry per row).
\<close>

fun validate_loop ::
  "RuleConfig \<Rightarrow> QuestionRow list \<Rightarrow> Finding list \<times> Finding list \<Rightarrow> Finding list \<times> Finding list"
where
  "validate_loop cfg [] (findings, results) = (findings, results)"
| "validate_loop cfg (row # rows) (findings, results) =
     (if \<not> should_validate row
      then validate_loop cfg rows (findings, results @ [skipped row])
      else case validate_row row cfg of
             Some fnd \<Rightarrow> validate_loop cfg rows (findings @ [fnd], results @ [fnd])
           | None \<Rightarrow> validate_loop cfg rows (findings, results @ [passed row]))"

definition validate_rows :: "QuestionRow list \<Rightarrow> Finding list" where
  "validate_rows rows = snd (validate_loop RuleConfig_default rows ([], []))"

text \<open>\<open>dataclasses.asdict\<close>: the fields in declaration order, under their names.\<close>

definition py_opt_str :: "string option \<Rightarrow> pyval" where
  "py_opt_str v = (case v of None \<Rightarrow> PNone | Some s \<Rightarrow> PStr s)"

definition asdict :: "Finding \<Rightarrow> pydict" where
  "asdict f =
     [(''sheet'', PStr (sheet f)),
      (''row_idx'', PInt (row_idx f)),
      (''question_id'', py_opt_str (question_id f)),
      (''question_text'', PStr (question_text f)),
      (''answer_text'', PStr (answer_text f)),
      (''expected_text'', PStr (expected_text f)),
      (''status'', PStr (status f)),
      (''reason'', PStr (reason f)),
      (''details'', (case details f of None \<Rightarrow> PNone | Some d \<Rightarrow> PDict d))]"

text \<open>\<open>d.get(k)\<close> is \<open>None\<close> for a missing key; \<open>d[k] = v\<close> replaces the value in place or
  appends the key.\<close>

definition dict_get :: "pydict \<Rightarrow> string \<Rightarrow> pyval" where
  "dict_get d k = (case map_of d k of None \<Rightarrow> PNone | Some v \<Rightarrow> v)"

fun dict_set :: "pydict \<Rightarrow> string \<Rightarrow> pyval \<Rightarrow> pydict" where
  "dict_set [] k v = [(k, v)]"
| "dict_set ((k', v') # d) k v = (if k' = k then (k, v) # d else (k', v') # dict_set d k v)"

definition to_dict :: "Finding \<Rightarrow> pydict" where
  "to_dict f =
     (let d = asdict f
      in if dict_get d ''details'' = PNone then dict_set d ''details'' (PDict []) else d)"

section \<open>Notions of the specification\<close>

text \<open>
  The specification's "contains the keyword as a case-insensitive substring": some window
  of the name, of the keyword's length, equals the keyword when both are lowercased.
\<close>

definition ci_substring :: "string \<Rightarrow> string \<Rightarrow> bool" where
  "ci_substring kw name =
     list_ex (\<lambda>i. lower (take (length kw) (drop i name)) = lower kw) [0..<Suc (length name)]"

text \<open>The keys of the \<open>details\<close> literals of \<open>validate_row\<close>: one per sub-rule.\<close>

definition sub_rule_tags :: "string list" where
  "sub_rule_tags =
     [''expected'', ''mandatory'', ''forbidden'', ''reference_only'', ''refusal'',
      ''reference_detected'', ''min_len'']"

text \<open>
  What the flagging branches of \<open>validate_row\<close> have in common: the finding is built from
  the row, with one of the three flag statuses, a reason and a tagged \<open>details\<close> literal.
\<close>

definition is_flag_of :: "QuestionRow \<Rightarrow> Finding \<Rightarrow> bool" where
  "is_flag_of row f =
     (\<exists>st rs dt. f = finding row st rs dt
        \<and> List.member [''INCOMPLETE'', ''REJECTED'', ''NEEDS_EVIDENCE''] st
        \<and> rs \<noteq> []
        \<and> list_ex (\<lambda>k. map_of dt k \<noteq> None) sub_rule_tags)"

section \<open>Example rows\<close>

text \<open>Concrete rows and a bare finding, on which the theorems below are instantiated.\<close>

definition row_heading :: QuestionRow where
  "row_heading = \<lparr>sheet = ''General'', row_idx = 1, question_id = None,
     question_text = ''Kontaktdaten'', answer_text = [], expected_text = []\<rparr>"

definition row_clean :: QuestionRow where
  "row_clean = \<lparr>sheet = ''General'', row_idx = 2, question_id = Some ''1.1'',
     question_text = ''Firma?'', answer_text = ''Acme AG'', expected_text = []\<rparr>"

definition row_tbd :: QuestionRow where
  "row_tbd = \<lparr>sheet = ''General'', row_idx = 3, question_id = Some ''1.2'',
     question_text = ''Rechtsform'', answer_text = ''TBD'',
     expected_text = ''Field is obligatory''\<rparr>"

definition row_note :: QuestionRow where
  "row_note = \<lparr>sheet = ''General'', row_idx = 4, question_id = None,
     question_text = ''Anlagen'', answer_text = [],
     expected_text = ''Please note: attach files''\<rparr>"

definition row_empty :: QuestionRow where
  "row_empty = \<lparr>sheet = ''General'', row_idx = 5, question_id = Some ''1.3'',
     question_text = ''Rechtsform'', answer_text = [],
     expected_text = ''Field is obligatory''\<rparr>"

definition row_signed :: QuestionRow where
  "row_signed = \<lparr>sheet = ''General'', row_idx = 6, question_id = None,
     question_text = ''Ort / Datum'', answer_text = ''Berlin, 1.1.2024'',
     expected_text = []\<rparr>"

definition row_annex_heading :: QuestionRow where
  "row_annex_heading = \<lparr>sheet = ''Outsourcing'', row_idx = 7, question_id = None,
     question_text = ''Anlagen'', answer_text = ''See attachment Annex 3'',
     expected_text = []\<rparr>"

definition row_annex :: QuestionRow where
  "row_annex = \<lparr>sheet = ''Outsourcing'', row_idx = 8, question_id = Some ''2.1'',
     question_text = ''Vertrag?'', answer_text = ''See attachment Annex 3'',
     expected_text = []\<rparr>"

definition row_regta_policy :: QuestionRow where
  "row_regta_policy = \<lparr>sheet = ''RegTA'', row_idx = 9, question_id = Some ''3.1'',
     question_text = ''Prozess?'', answer_text = ''See policy'',
     expected_text = ''Reference to a document is not acceptable''\<rparr>"

definition row_fund_policy :: QuestionRow where
  "row_fund_policy = \<lparr>sheet = ''Fund Management'', row_idx = 9, question_id = Some ''3.1'',
     question_text = ''Prozess?'', answer_text = ''See policy'',
     expected_text = ''Reference to a document is not acceptable''\<rparr>"

definition row_email :: QuestionRow where
  "row_email = \<lparr>sheet = ''General'', row_idx = 10, question_id = None,
     question_text = ''E-Mail:'', answer_text = ''not-an-email'',
     expected_text = ''[text]''\<rparr>"

definition finding_bare :: Finding where
  "finding_bare = \<lparr>sheet = ''General'', row_idx = 2, question_id = Some ''1.1'',
     question_text = ''Firma?'', answer_text = ''Acme AG'', expected_text = [],
     status = ''OK'', reason = ''Passed rule checks.'', details = None\<rparr>"

definition finding_tagged :: Finding where
  "finding_tagged = \<lparr>sheet = ''General'', row_idx = 10, question_id = None,
     question_text = ''E-Mail:'', answer_text = ''not-an-email'', expected_text = ''[text]'',
     status = ''INCOMPLETE'', reason = ''Expected a valid email address.'',
     details = Some [(''expected'', PStr ''email'')]\<rparr>"

section \<open>Character tables by bits, for evaluation\<close>

text \<open>
  The character classes above are ranges of code points. The same classes, read off the
  eight bits of a character (\<open>Char b0 ... b7\<close>, lowest bit first), evaluate without
  arithmetic; each is proved equal to the definition over all 256 characters.
\<close>

lemma lower_chr_bits [code]:
  "lower_chr (Char b0 b1 b2 b3 b4 b5 b6 b7) =
     (if b6 \<and> \<not> b5
         \<and> (if b7 then \<not> (b0 \<and> b1 \<and> b2 \<and> b4)
             else (b0 \<or> b1 \<or> b2 \<or> b3 \<or> b4) \<and> \<not> (b4 \<and> b3 \<and> (b2 \<or> (b1 \<and> b0))))
      then Char b0 b1 b2 b3 b4 True b6 b7
      else Char b0 b1 b2 b3 b4 b5 b6 b7)"
  by (cases b0; cases b1; cases b2; cases b3; cases b4; cases b5; cases b6; cases b7;
      simp add: lower_chr_def char_of_eq_iff take_bit_eq_mod)

lemma is_space_bits [code]:
  "is_space (Char b0 b1 b2 b3 b4 b5 b6 b7) =
     (if b7 then \<not> b6 \<and> \<not> b4 \<and> \<not> b3 \<and> \<not> b1 \<and> (b5 \<noteq> b2) \<and> (b5 \<noteq> b0)
      else \<not> b6 \<and> (if b5 then \<not> (b0 \<or> b1 \<or> b2 \<or> b3 \<or> b4)
                    else b3 \<and> (if b4 then b2 else \<not> (b2 \<and> b1) \<and> (b2 \<or> b1 \<or> b0))))"
  by (cases b0; cases b1; cases b2; cases b3; cases b4; cases b5; cases b6; cases b7;
      simp add: is_space_def)

lemma is_digit_bits [code]:
  "is_digit (Char b0 b1 b2 b3 b4 b5 b6 b7) =
     (\<not> b7 \<and> \<not> b6 \<and> b5 \<and> b4 \<and> \<not> (b3 \<and> (b2 \<or> b1)))"
  by (cases b0; cases b1; cases b2; cases b3; cases b4; cases b5; cases b6; cases b7;
      simp add: is_digit_def)

lemma is_ascii_alpha_bits [code]:
  "is_ascii_alpha (Char b0 b1 b2 b3 b4 b5 b6 b7) =
     (\<not> b7 \<and> b6 \<and> (b0 \<or> b1 \<or> b2 \<or> b3 \<or> b4) \<and> \<not> (b4 \<and> b3 \<and> (b2 \<or> (b1 \<and> b0))))"
  by (cases b0; cases b1; cases b2; cases b3; cases b4; cases b5; cases b6; cases b7;
      simp add: is_ascii_alpha_def)

lemma is_word_bits [code]:
  "is_word (Char b0 b1 b2 b3 b4 b5 b6 b7) =
     (if b7
      then (if b6 then \<not> (b0 \<and> b1 \<and> b2 \<and> \<not> b3 \<and> b4)
            else List.member [CHR 0xAA, CHR 0xB2, CHR 0xB3, CHR 0xB5, CHR 0xB9, CHR 0xBA,
                              CHR 0xBC, CHR 0xBD, CHR 0xBE] (Char b0 b1 b2 b3 b4 b5 b6 b7))
      else is_digit (Char b0 b1 b2 b3 b4 b5 b6 b7)
           \<or> is_ascii_alpha (Char b0 b1 b2 b3 b4 b5 b6 b7)
           \<or> Char b0 b1 b2 b3 b4 b5 b6 b7 = CHR ''_'')"
  by (cases b0; cases b1; cases b2; cases b3; cases b4; cases b5; cases b6; cases b7;
      simp add: is_word_def is_digit_def is_ascii_alpha_def)

section \<open>Substrings, and the shape of every flag\<close>

lemma startswith_iff: "startswith s p \<longleftrightarrow> take (length p) s = p"
  by (induction s p rule: startswith.induct) auto

lemma str_in_iff: "str_in sub s \<longleftrightarrow> (\<exists>i\<le>length s. take (length sub) (drop i s) = sub)"
proof (induction s)
  case Nil
  show ?case by auto
next
  case (Cons x xs)
  have "(\<exists>i\<le>length (x # xs). take (length sub) (drop i (x # xs)) = sub)
        \<longleftrightarrow> take (length sub) (x # xs) = sub \<or> (\<exists>j\<le>length xs. take (length sub) (drop j xs) = sub)"
    (is "?L \<longleftrightarrow> ?A \<or> ?B")
  proof
    assume ?L
    then obtain i where i: "i \<le> length (x # xs)" "take (length sub) (drop i (x # xs)) = sub" by blast
    show "?A \<or> ?B"
    proof (cases i)
      case 0
      with i show ?thesis by simp
    next
      case (Suc j)
      with i have "j \<le> length xs" "take (length sub) (drop j xs) = sub" by simp_all
      then show ?thesis by blast
    qed
  next
    assume "?A \<or> ?B"
    then show ?L
    proof
      assume ?A
      then have "take (length sub) (drop 0 (x # xs)) = sub" by simp
      then show ?L by blast
    next
      assume ?B
      then obtain j where "j \<le> length xs" "take (length sub) (drop j xs) = sub" by blast
      then have "Suc j \<le> length (x # xs)" "take (length sub) (drop (Suc j) (x # xs)) = sub" by simp_all
      then show ?L by blast
    qed
  qed
  with Cons show ?case by (simp add: startswith_iff)
qed

lemma lower_window: "lower (take n (drop i s)) = take n (drop i (lower s))"
  by (simp add: lower_def take_map drop_map)

lemma str_in_lower_ci:
  assumes "lower kw = kw"
  shows "str_in kw (lower s) \<longleftrightarrow> ci_substring kw s"
proof -
  have "ci_substring kw s \<longleftrightarrow> (\<exists>i\<in>{0..<Suc (length s)}. take (length kw) (drop i (lower s)) = kw)"
    unfolding ci_substring_def list_ex_iff by (simp only: set_upt lower_window assms)
  also have "\<dots> \<longleftrightarrow> (\<exists>i\<le>length (lower s). take (length kw) (drop i (lower s)) = kw)"
    by (auto simp: lower_def less_Suc_eq_le)
  also have "\<dots> \<longleftrightarrow> str_in kw (lower s)"
    by (simp only: str_in_iff)
  finally show ?thesis by simp
qed

lemma first_return_Some: "first_return fs = Some f \<Longrightarrow> Return (Some f) \<in> set fs"
  by (induction fs rule: first_return.induct) auto

lemma is_flag_ofI:
  "List.member [''INCOMPLETE'', ''REJECTED'', ''NEEDS_EVIDENCE''] st \<Longrightarrow> rs \<noteq> []
   \<Longrightarrow> list_ex (\<lambda>k. map_of dt k \<noteq> None) sub_rule_tags \<Longrightarrow> is_flag_of row (finding row st rs dt)"
  unfolding is_flag_of_def by blast

lemma signature_step_flag: "signature_step row a cfg = Return (Some f) \<Longrightarrow> is_flag_of row f"
  by (auto simp: signature_step_def Let_def sub_rule_tags_def split: if_splits intro!: is_flag_ofI)

lemma empty_step_flag: "empty_step row a m = Return (Some f) \<Longrightarrow> is_flag_of row f"
  by (auto simp: empty_step_def sub_rule_tags_def split: if_splits intro!: is_flag_ofI)

lemma forbidden_step_flag: "forbidden_step row a m cfg = Return (Some f) \<Longrightarrow> is_flag_of row f"
  by (auto simp: forbidden_step_def sub_rule_tags_def split: if_splits option.splits intro!: is_flag_ofI)

lemma filename_step_flag: "filename_step row a e = Return (Some f) \<Longrightarrow> is_flag_of row f"
  by (auto simp: filename_step_def sub_rule_tags_def split: if_splits intro!: is_flag_ofI)

lemma allgemeiner_step_flag: "allgemeiner_step row a e = Return (Some f) \<Longrightarrow> is_flag_of row f"
  by (auto simp: allgemeiner_step_def Let_def sub_rule_tags_def split: if_splits intro!: is_flag_ofI)

lemma reference_only_flag: "is_flag_of row (reference_only row)"
  unfolding reference_only_def by (rule is_flag_ofI) (simp_all add: sub_rule_tags_def)

lemma refusal_flag: "is_flag_of row (refusal row)"
  unfolding refusal_def by (rule is_flag_ofI) (simp_all add: sub_rule_tags_def)

lemma fondsmanagement_step_flag: "fondsmanagement_step row a e = Return (Some f) \<Longrightarrow> is_flag_of row f"
  by (auto simp: fondsmanagement_step_def reference_only_flag refusal_flag split: if_splits)

lemma regta_step_flag: "regta_step row a e = Return (Some f) \<Longrightarrow> is_flag_of row f"
  by (auto simp: regta_step_def reference_only_flag refusal_flag split: if_splits)

lemma zv_fobu_step_flag: "zv_fobu_step row a e = Return (Some f) \<Longrightarrow> is_flag_of row f"
  by (auto simp: zv_fobu_step_def reference_only_flag refusal_flag split: if_splits)

lemma verwahrstelle_step_flag: "verwahrstelle_step row a e = Return (Some f) \<Longrightarrow> is_flag_of row f"
  by (auto simp: verwahrstelle_step_def reference_only_flag refusal_flag split: if_splits)

lemma innenrevision_step_flag: "innenrevision_step row a e = Return (Some f) \<Longrightarrow> is_flag_of row f"
  by (auto simp: innenrevision_step_def sub_rule_tags_def split: if_splits intro!: is_flag_ofI)

lemma reference_step_flag: "reference_step row a = Return (Some f) \<Longrightarrow> is_flag_of row f"
  by (auto simp: reference_step_def sub_rule_tags_def split: if_splits intro!: is_flag_ofI)

lemma yes_no_step_flag: "yes_no_step row a e = Return (Some f) \<Longrightarrow> is_flag_of row f"
  by (auto simp: yes_no_step_def Let_def sub_rule_tags_def split: if_splits intro!: is_flag_ofI)

lemma descriptive_step_flag: "descriptive_step row a e cfg = Return (Some f) \<Longrightarrow> is_flag_of row f"
  by (auto simp: descriptive_step_def sub_rule_tags_def split: if_splits intro!: is_flag_ofI)

lemmas step_flags = signature_step_flag empty_step_flag forbidden_step_flag filename_step_flag
  allgemeiner_step_flag fondsmanagement_step_flag regta_step_flag zv_fobu_step_flag
  verwahrstelle_step_flag innenrevision_step_flag reference_step_flag yes_no_step_flag
  descriptive_step_flag

lemma validate_row_flag:
  assumes "validate_row row cfg = Some f"
  shows "is_flag_of row f"
proof -
  from assms have sv: "should_validate row"
    by (auto simp: validate_row_def split: if_splits)
  with assms have "Return (Some f) \<in> set
      [signature_step row (strip (answer_text row)) cfg,
       empty_step row (strip (answer_text row)) (is_mandatory row),
       forbidden_step row (strip (answer_text row)) (is_mandatory row) cfg,
       filename_step row (strip (answer_text row)) (strip (expected_text row)),
       allgemeiner_step row (strip (answer_text row)) (strip (expected_text row)),
       fondsmanagement_step row (strip (answer_text row)) (strip (expected_text row)),
       regta_step row (strip (answer_text row)) (strip (expected_text row)),
       zv_fobu_step row (strip (answer_text row)) (strip (expected_text row)),
       verwahrstelle_step row (strip (answer_text row)) (strip (expected_text row)),
       innenrevision_step row (strip (answer_text row)) (strip (expected_text row)),
       reference_step row (strip (answer_text row)),
       yes_no_step row (strip (answer_text row)) (strip (expected_text row)),
       descriptive_step row (strip (answer_text row)) (strip (expected_text row)) cfg]"
    by (intro first_return_Some) (simp add: validate_row_def Let_def)
  then show ?thesis
    by (simp only: set_simps insert_iff empty_iff) (elim disjE; (erule step_flags [OF sym])?; simp?)
qed

section \<open>The driver loop\<close>

lemma validate_loop_results:
  "snd (validate_loop cfg rows (fs, rs)) =
     rs @ map (\<lambda>row. if \<not> should_validate row then skipped row
                     else case validate_row row cfg of None \<Rightarrow> passed row | Some fnd \<Rightarrow> fnd) rows"
  by (induction rows arbitrary: fs rs) (auto split: option.splits)

text \<open>
  Claim C5. For every input sequence of rows the driver's results have the same length and
  order as the rows: entry \<open>i\<close> is the \<open>SKIPPED\<close> placeholder when \<open>should_validate\<close> is false
  on row \<open>i\<close>, the \<open>OK\<close> placeholder when \<open>validate_row\<close> returns \<open>None\<close> on it, and the
  finding \<open>validate_row\<close> returns otherwise. Both placeholders are written out: the six
  fields of the row, the status, the driver's reason and its \<open>validated\<close> detail.
  (\<open>validate_rows\<close> is the loop of the rule engine with the default configuration, as both
  drivers run it; the optional language model refinement that may follow it is a separate
  collaborator and not part of it.)
\<close>

theorem validate_rows_one_to_one:
  "length (validate_rows rows) = length rows \<and>
   (\<forall>i<length rows.
      validate_rows rows ! i =
        (if \<not> should_validate (rows ! i)
         then \<lparr>sheet = sheet (rows ! i), row_idx = row_idx (rows ! i),
               question_id = question_id (rows ! i),
               question_text = question_text (rows ! i),
               answer_text = answer_text (rows ! i),
               expected_text = expected_text (rows ! i),
               status = ''SKIPPED'',
               reason = ''Row is not a question or validation rule does not apply.'',
               details = Some [(''validated'', PBool False)]\<rparr>
         else case validate_row (rows ! i) RuleConfig_default of
                None \<Rightarrow>
                  \<lparr>sheet = sheet (rows ! i), row_idx = row_idx (rows ! i),
                   question_id = question_id (rows ! i),
                   question_text = question_text (rows ! i),
                   answer_text = answer_text (rows ! i),
                   expected_text = expected_text (rows ! i),
                   status = ''OK'', reason = ''Passed rule checks.'',
                   details = Some [(''validated'', PBool True)]\<rparr>
              | Some fnd \<Rightarrow> fnd))"
  by (auto simp add: validate_rows_def validate_loop_results skipped_def passed_def finding_def
        split: option.splits)

theorem validate_rows_one_to_one_witness:
  "length (validate_rows [row_heading, row_clean, row_tbd]) = 3
   \<and> validate_rows [row_heading, row_clean, row_tbd] ! 0 =
       \<lparr>sheet = ''General'', row_idx = 1, question_id = None,
        question_text = ''Kontaktdaten'', answer_text = [], expected_text = [],
        status = ''SKIPPED'',
        reason = ''Row is not a question or validation rule does not apply.'',
        details = Some [(''validated'', PBool False)]\<rparr>
   \<and> validate_rows [row_heading, row_clean, row_tbd] ! 1 =
       \<lparr>sheet = ''General'', row_idx = 2, question_id = Some ''1.1'',
        question_text = ''Firma?'', answer_text = ''Acme AG'', expected_text = [],
        status = ''OK'', reason = ''Passed rule checks.'',
        details = Some [(''validated'', PBool True)]\<rparr>
   \<and> validate_rows [row_heading, row_clean, row_tbd] ! 2 =
       \<lparr>sheet = ''General'', row_idx = 3, question_id = Some ''1.2'',
        question_text = ''Rechtsform'', answer_text = ''TBD'',
        expected_text = ''Field is obligatory'', status = ''REJECTED'',
        reason = ''Answer contains forbidden placeholder: '' @ [CHR 0x27] @ ''tbd''
                   @ [CHR 0x27] @ ''.'',
        details = Some [(''forbidden'', PStr ''tbd'')]\<rparr>"
proof -
  let ?L = "[row_heading, row_clean, row_tbd]"
  let ?out = "\<lambda>row :: QuestionRow.
        if \<not> should_validate row
        then \<lparr>sheet = sheet row, row_idx = row_idx row, question_id = question_id row,
              question_text = question_text row, answer_text = answer_text row,
              expected_text = expected_text row, status = ''SKIPPED'',
              reason = ''Row is not a question or validation rule does not apply.'',
              details = Some [(''validated'', PBool False)]\<rparr>
        else case validate_row row RuleConfig_default of
               None \<Rightarrow>
                 \<lparr>sheet = sheet row, row_idx = row_idx row, question_id = question_id row,
                  question_text = question_text row, answer_text = answer_text row,
                  expected_text = expected_text row, status = ''OK'',
                  reason = ''Passed rule checks.'',
                  details = Some [(''validated'', PBool True)]\<rparr>
             | Some fnd \<Rightarrow> fnd"
  have h0: "\<not> should_validate row_heading" by code_simp
  have h1: "should_validate row_clean" by code_simp
  have v1: "validate_row row_clean RuleConfig_default = None" by code_simp
  have h2: "should_validate row_tbd" by code_simp
  have v2: "validate_row row_tbd RuleConfig_default =
      Some \<lparr>sheet = ''General'', row_idx = 3, question_id = Some ''1.2'',
        question_text = ''Rechtsform'', answer_text = ''TBD'',
        expected_text = ''Field is obligatory'', status = ''REJECTED'',
        reason = ''Answer contains forbidden placeholder: '' @ [CHR 0x27] @ ''tbd''
                   @ [CHR 0x27] @ ''.'',
        details = Some [(''forbidden'', PStr ''tbd'')]\<rparr>" by code_simp
  note r = validate_rows_one_to_one [of ?L]
  from r have len: "length (validate_rows ?L) = 3" by simp
  from r have nth: "\<And>i. i < 3 \<Longrightarrow> validate_rows ?L ! i = ?out (?L ! i)" by simp
  from nth [of 0] h0 have n0: "validate_rows ?L ! 0 =
       \<lparr>sheet = ''General'', row_idx = 1, question_id = None,
        question_text = ''Kontaktdaten'', answer_text = [], expected_text = [],
        status = ''SKIPPED'',
        reason = ''Row is not a question or validation rule does not apply.'',
        details = Some [(''validated'', PBool False)]\<rparr>"
    by (simp add: row_heading_def)
  from nth [of 1] h1 v1 have n1: "validate_rows ?L ! 1 =
       \<lparr>sheet = ''General'', row_idx = 2, question_id = Some ''1.1'',
        question_text = ''Firma?'', answer_text = ''Acme AG'', expected_text = [],
        status = ''OK'', reason = ''Passed rule checks.'',
        details = Some [(''validated'', PBool True)]\<rparr>"
    by (simp add: row_clean_def)
  from nth [of 2] h2 v2 have n2: "validate_rows ?L ! 2 =
       \<lparr>sheet = ''General'', row_idx = 3, question_id = Some ''1.2'',
        question_text = ''Rechtsform'', answer_text = ''TBD'',
        expected_text = ''Field is obligatory'', status = ''REJECTED'',
        reason = ''Answer contains forbidden placeholder: '' @ [CHR 0x27] @ ''tbd''
                   @ [CHR 0x27] @ ''.'',
        details = Some [(''forbidden'', PStr ''tbd'')]\<rparr>"
    by simp
  from len n0 n1 n2 show ?thesis by blast
qed

section \<open>Serialisation\<close>

text \<open>
  Claim C9. For every \<open>Finding\<close>, also one built with \<open>details=None\<close>, \<open>to_dict\<close> holds
  each of the nine fields under its field name (an absent \<open>question_id\<close> as \<open>None\<close>, a
  present one as its string), and under \<open>details\<close> a mapping that is never \<open>None\<close>: the
  empty one when \<open>details\<close> was \<open>None\<close>, the original one otherwise.
\<close>

theorem to_dict_fields:
  "map fst (to_dict f) =
     [''sheet'', ''row_idx'', ''question_id'', ''question_text'', ''answer_text'',
      ''expected_text'', ''status'', ''reason'', ''details''] \<and>
   map_of (to_dict f) ''sheet'' = Some (PStr (sheet f)) \<and>
   map_of (to_dict f) ''row_idx'' = Some (PInt (row_idx f)) \<and>
   map_of (to_dict f) ''question_id'' =
     Some (case question_id f of None \<Rightarrow> PNone | Some q \<Rightarrow> PStr q) \<and>
   map_of (to_dict f) ''question_text'' = Some (PStr (question_text f)) \<and>
   map_of (to_dict f) ''answer_text'' = Some (PStr (answer_text f)) \<and>
   map_of (to_dict f) ''expected_text'' = Some (PStr (expected_text f)) \<and>
   map_of (to_dict f) ''status'' = Some (PStr (status f)) \<and>
   map_of (to_dict f) ''reason'' = Some (PStr (reason f)) \<and>
   map_of (to_dict f) ''details'' =
     Some (PDict (case details f of None \<Rightarrow> [] | Some d \<Rightarrow> d))"
  by (cases "details f") (simp_all add: to_dict_def asdict_def dict_get_def py_opt_str_def)

theorem to_dict_fields_witness:
  "details finding_bare = None
   \<and> to_dict finding_bare =
       [(''sheet'', PStr ''General''), (''row_idx'', PInt 2), (''question_id'', PStr ''1.1''),
        (''question_text'', PStr ''Firma?''), (''answer_text'', PStr ''Acme AG''),
        (''expected_text'', PStr []), (''status'', PStr ''OK''),
        (''reason'', PStr ''Passed rule checks.''), (''details'', PDict [])]
   \<and> map_of (to_dict finding_bare) ''question_id'' = Some (PStr ''1.1'')
   \<and> map_of (to_dict finding_bare) ''details'' = Some (PDict [])
   \<and> map_of (to_dict finding_tagged) ''question_id'' = Some PNone
   \<and> map_of (to_dict finding_tagged) ''details'' =
       Some (PDict [(''expected'', PStr ''email'')])"
proof -
  have d: "to_dict finding_bare =
       [(''sheet'', PStr ''General''), (''row_idx'', PInt 2), (''question_id'', PStr ''1.1''),
        (''question_text'', PStr ''Firma?''), (''answer_text'', PStr ''Acme AG''),
        (''expected_text'', PStr []), (''status'', PStr ''OK''),
        (''reason'', PStr ''Passed rule checks.''), (''details'', PDict [])]"
    by code_simp
  from to_dict_fields [of finding_bare] to_dict_fields [of finding_tagged] d
  show ?thesis by (simp add: finding_bare_def finding_tagged_def)
qed

section \<open>Properties of every finding of \<open>validate_row\<close>\<close>

text \<open>
  Claim C10. For every row and configuration, a finding returned by \<open>validate_row\<close> carries
  \<open>sheet\<close>, \<open>row_idx\<close>, \<open>question_id\<close>, \<open>question_text\<close>, \<open>answer_text\<close> and \<open>expected_text\<close>
  equal to the fields of the input row, untrimmed.
\<close>

theorem validate_row_keeps_row_fields:
  assumes "validate_row row cfg = Some f"
  shows "sheet f = sheet row \<and> row_idx f = row_idx row \<and> question_id f = question_id row
         \<and> question_text f = question_text row \<and> answer_text f = answer_text row
         \<and> expected_text f = expected_text row"
  using validate_row_flag [OF assms] by (auto simp: is_flag_of_def finding_def)

theorem validate_row_keeps_row_fields_witness:
  "validate_row row_email RuleConfig_default =
     Some (finding row_email ''INCOMPLETE'' ''Expected a valid email address.''
             [(''expected'', PStr ''email'')])
   \<and> answer_text (finding row_email ''INCOMPLETE'' ''Expected a valid email address.''
                     [(''expected'', PStr ''email'')]) = ''not-an-email''
   \<and> sheet (finding row_email ''INCOMPLETE'' ''Expected a valid email address.''
               [(''expected'', PStr ''email'')]) = ''General''"
proof -
  have h: "validate_row row_email RuleConfig_default =
     Some (finding row_email ''INCOMPLETE'' ''Expected a valid email address.''
             [(''expected'', PStr ''email'')])" by code_simp
  from validate_row_keeps_row_fields [OF h] h show ?thesis by (simp add: row_email_def)
qed

text \<open>
  Claim C7. Every finding returned by \<open>validate_row\<close>, for any row and configuration, has a
  status among \<open>INCOMPLETE\<close>, \<open>REJECTED\<close>, \<open>NEEDS_EVIDENCE\<close> (never \<open>OK\<close> or \<open>SKIPPED\<close>), a
  non-empty reason, and a \<open>details\<close> mapping that is not \<open>None\<close> and holds at least one of
  the tags that name the sub-rule.
\<close>

theorem validate_row_finding_shape:
  assumes "validate_row row cfg = Some f"
  shows "status f \<in> {''INCOMPLETE'', ''REJECTED'', ''NEEDS_EVIDENCE''}
         \<and> status f \<noteq> ''OK'' \<and> status f \<noteq> ''SKIPPED''
         \<and> reason f \<noteq> []
         \<and> (\<exists>d. details f = Some d \<and> d \<noteq> [] \<and> (\<exists>k\<in>set sub_rule_tags. map_of d k \<noteq> None))"
proof -
  from validate_row_flag [OF assms] obtain st rs dt where f: "f = finding row st rs dt"
    and st: "List.member [''INCOMPLETE'', ''REJECTED'', ''NEEDS_EVIDENCE''] st"
    and rs: "rs \<noteq> []"
    and dt: "list_ex (\<lambda>k. map_of dt k \<noteq> None) sub_rule_tags"
    unfolding is_flag_of_def by blast
  from st have 1: "status f \<in> {''INCOMPLETE'', ''REJECTED'', ''NEEDS_EVIDENCE''}"
    by (simp add: f finding_def)
  then have 2: "status f \<noteq> ''OK'' \<and> status f \<noteq> ''SKIPPED''" by auto
  from dt have 3: "\<exists>k\<in>set sub_rule_tags. map_of dt k \<noteq> None" by (simp add: list_ex_iff)
  then have 4: "dt \<noteq> []" by auto
  from 1 2 rs 3 4 show ?thesis by (simp add: f finding_def)
qed

theorem validate_row_finding_shape_witness:
  "validate_row row_annex RuleConfig_default =
     Some (finding row_annex ''NEEDS_EVIDENCE''
       ''Answer references an attachment/section; requires document evidence retrieval.''
       [(''reference_detected'', PBool True)])
   \<and> status (finding row_annex ''NEEDS_EVIDENCE''
       ''Answer references an attachment/section; requires document evidence retrieval.''
       [(''reference_detected'', PBool True)])
      \<in> {''INCOMPLETE'', ''REJECTED'', ''NEEDS_EVIDENCE''}
   \<and> reason (finding row_annex ''NEEDS_EVIDENCE''
       ''Answer references an attachment/section; requires document evidence retrieval.''
       [(''reference_detected'', PBool True)]) \<noteq> []"
proof -
  have h: "validate_row row_annex RuleConfig_default =
     Some (finding row_annex ''NEEDS_EVIDENCE''
       ''Answer references an attachment/section; requires document evidence retrieval.''
       [(''reference_detected'', PBool True)])" by code_simp
  from validate_row_finding_shape [OF h] h show ?thesis by blast
qed



section \<open>Signature rows and empty mandatory answers\<close>

lemma dropWhile_strip: "dropWhile is_space (strip s) = strip s"
proof (cases "dropWhile is_space s")
  case Nil
  have "strip s = []" unfolding strip_def Nil by simp
  then show ?thesis by simp
next
  case (Cons x xs)
  then have nx: "\<not> is_space x" using hd_dropWhile [of is_space s] by (metis list.sel(1) list.distinct(1))
  have "strip s = rev (dropWhile is_space (rev xs @ [x]))" unfolding strip_def Cons by simp
  also have "\<dots> = x # rev (dropWhile is_space (rev xs))"
    using nx by (simp add: dropWhile_append3)
  finally show ?thesis using nx by simp
qed

lemma strip_strip: "strip (strip s) = strip s"
proof -
  have "strip (strip s) = rev (dropWhile is_space (rev (strip s)))"
    by (simp add: strip_def [of "strip s"] dropWhile_strip)
  also have "\<dots> = strip s" by (simp add: strip_def)
  finally show ?thesis .
qed

lemma strip_Nil: "strip [] = []"
  by (simp add: strip_def)

lemma contains_forbidden_None:
  assumes "\<forall>tok\<in>set (forbidden_tokens cfg). \<not> str_in tok (lower (strip a))"
  shows "contains_forbidden (strip a) cfg = None"
  using assms by (simp add: contains_forbidden_def Let_def strip_strip find_None_iff)

text \<open>
  Claim C6. For every row classified as a signature row whose trimmed answer is non-empty
  and contains none of the configuration's forbidden tokens, \<open>validate_row\<close> returns \<open>None\<close>:
  the row passes and no later check of the cascade runs.
\<close>

theorem signature_row_clean_passes:
  assumes "is_signature_row row"
    and "strip (answer_text row) \<noteq> []"
    and "\<forall>tok\<in>set (forbidden_tokens cfg). \<not> str_in tok (lower (strip (answer_text row)))"
  shows "validate_row row cfg = None"
proof -
  have "signature_step row (strip (answer_text row)) cfg = Return None"
    using assms by (simp add: signature_step_def contains_forbidden_None truthy_def)
  then show ?thesis by (simp add: validate_row_def Let_def)
qed

theorem signature_row_clean_passes_witness:
  "is_signature_row row_signed \<and> strip (answer_text row_signed) \<noteq> []
   \<and> list_all (\<lambda>tok. \<not> str_in tok (lower (strip (answer_text row_signed))))
        (forbidden_tokens RuleConfig_default)
   \<and> should_validate row_signed
   \<and> validate_row row_signed RuleConfig_default = None"
proof -
  have h1: "is_signature_row row_signed" by code_simp
  have h2: "strip (answer_text row_signed) \<noteq> []" by code_simp
  have h3: "list_all (\<lambda>tok. \<not> str_in tok (lower (strip (answer_text row_signed))))
        (forbidden_tokens RuleConfig_default)" by code_simp
  have h4: "should_validate row_signed" by code_simp
  from h3 have h3': "\<forall>tok\<in>set (forbidden_tokens RuleConfig_default).
      \<not> str_in tok (lower (strip (answer_text row_signed)))" by (simp add: list_all_iff)
  from signature_row_clean_passes [OF h1 h2 h3'] h1 h2 h3 h4 show ?thesis by blast
qed

text \<open>
  Claim C2, as stated, fails on a guidance row: \<open>row_note\<close> has an empty answer, is
  mandatory (its expected text is not empty) and is no signature row, but its expected
  text starts with "please note", so \<open>should_validate\<close> is false and \<open>validate_row\<close> returns
  \<open>None\<close> at its first statement.
\<close>

theorem mandatory_empty_counterexample:
  "answer_text row_note = [] \<and> is_mandatory row_note \<and> \<not> is_signature_row row_note
   \<and> validate_row row_note RuleConfig_default = None"
  by code_simp

text \<open>
  Claim C2, amended. For every row that \<open>should_validate\<close> accepts, with empty
  \<open>answer_text\<close>, for which \<open>is_mandatory\<close> is true and that is not a signature row,
  \<open>validate_row\<close> yields a finding with status \<open>REJECTED\<close>.
\<close>

theorem mandatory_empty_rejected:
  assumes "should_validate row"
    and "answer_text row = []"
    and "is_mandatory row"
    and "\<not> is_signature_row row"
  shows "\<exists>f. validate_row row cfg = Some f \<and> status f = ''REJECTED''"
  using assms
  by (simp add: validate_row_def Let_def strip_Nil signature_step_def empty_step_def finding_def)

theorem mandatory_empty_rejected_witness:
  "should_validate row_empty \<and> answer_text row_empty = [] \<and> is_mandatory row_empty
   \<and> \<not> is_signature_row row_empty
   \<and> validate_row row_empty RuleConfig_default =
       Some (finding row_empty ''REJECTED'' ''Mandatory field is empty.''
               [(''mandatory'', PBool True)])"
proof -
  have h1: "should_validate row_empty" by code_simp
  have h2: "answer_text row_empty = []" by code_simp
  have h3: "is_mandatory row_empty" by code_simp
  have h4: "\<not> is_signature_row row_empty" by code_simp
  have v: "validate_row row_empty RuleConfig_default =
       Some (finding row_empty ''REJECTED'' ''Mandatory field is empty.''
               [(''mandatory'', PBool True)])" by code_simp
  from mandatory_empty_rejected [OF h1 h2 h3 h4, of RuleConfig_default] h1 h2 h3 h4 v
  show ?thesis by blast
qed

section \<open>The catch-all reference rule\<close>

lemma annex_facts:
  "strip ''See attachment Annex 3'' = ''See attachment Annex 3''"
  "contains_forbidden ''See attachment Annex 3'' RuleConfig_default = None"
  "\<not> looks_like_email ''See attachment Annex 3''"
  "\<not> looks_like_phone ''See attachment Annex 3''"
  "\<not> looks_like_url ''See attachment Annex 3''"
  "detect_reference ''See attachment Annex 3''"
  by code_simp+

lemma empty_expected_facts:
  "\<not> expected_requires_filename []"
  "\<not> expected_requires_number_and_text []"
  "\<not> expected_content_not_relevant []"
  "\<not> expected_disallow_reference []"
  "\<not> expected_disallow_refusal []"
  "lower [] = []"
  by code_simp+

text \<open>
  Claim C4, as stated, fails on a heading: \<open>row_annex_heading\<close> has the answer
  "See attachment Annex 3", an empty expected text and a sheet in none of the
  disallow-reference categories, but its question text is no question, so
  \<open>should_validate\<close> is false and \<open>validate_row\<close> returns \<open>None\<close>.
\<close>

theorem annex_counterexample:
  "answer_text row_annex_heading = ''See attachment Annex 3''
   \<and> expected_text row_annex_heading = []
   \<and> \<not> is_fondsmanagement_sheet (sheet row_annex_heading)
   \<and> \<not> is_regta_sheet (sheet row_annex_heading)
   \<and> \<not> is_zv_fobu_sheet (sheet row_annex_heading)
   \<and> \<not> is_verwahrstelle_sheet (sheet row_annex_heading)
   \<and> validate_row row_annex_heading RuleConfig_default = None"
  by code_simp

text \<open>
  Claim C4, amended. For every row with \<open>answer_text\<close> "See attachment Annex 3" and
  empty \<open>expected_text\<close> that \<open>should_validate\<close> accepts, that is not a signature row, and
  that is not a row of a general-category sheet whose question names an e-mail address,
  a phone number or a website, \<open>validate_row\<close> with the default configuration flags the
  row with status \<open>NEEDS_EVIDENCE\<close>, on any sheet (an empty expected text disallows
  nothing, so no disallow-reference category can reject the row).
\<close>

theorem annex_needs_evidence:
  assumes "answer_text row = ''See attachment Annex 3''"
    and "expected_text row = []"
    and "should_validate row"
    and "\<not> is_signature_row row"
    and "\<not> (is_allgemeiner_sheet (sheet row)
            \<and> list_ex (\<lambda>k. str_in k (lower (question_text row)))
                 [''e-mail'', ''email'', ''telefon'', ''phone'', ''website'', ''web''])"
  shows "\<exists>f. validate_row row RuleConfig_default = Some f \<and> status f = ''NEEDS_EVIDENCE''"
proof -
  let ?a = "''See attachment Annex 3''"
  have s1: "signature_step row ?a RuleConfig_default = Continue"
    using assms(4) by (simp add: signature_step_def)
  have s2: "empty_step row ?a (is_mandatory row) = Continue"
    by (simp add: empty_step_def)
  have s3: "forbidden_step row ?a (is_mandatory row) RuleConfig_default = Continue"
    by (simp add: forbidden_step_def annex_facts)
  have s4: "filename_step row ?a [] = Continue"
    by (simp add: filename_step_def empty_expected_facts)
  have s5: "allgemeiner_step row ?a [] = Continue"
    using assms(5) by (auto simp add: allgemeiner_step_def Let_def empty_expected_facts annex_facts)
  have s6: "fondsmanagement_step row ?a [] = Continue"
    by (simp add: fondsmanagement_step_def empty_expected_facts)
  have s7: "regta_step row ?a [] = Continue"
    by (simp add: regta_step_def empty_expected_facts)
  have s8: "zv_fobu_step row ?a [] = Continue"
    by (simp add: zv_fobu_step_def empty_expected_facts)
  have s9: "verwahrstelle_step row ?a [] = Continue"
    by (simp add: verwahrstelle_step_def empty_expected_facts)
  have s10: "innenrevision_step row ?a [] = Continue"
    by (simp add: innenrevision_step_def empty_expected_facts)
  have s11: "reference_step row ?a = Return (Some (finding row ''NEEDS_EVIDENCE''
             ''Answer references an attachment/section; requires document evidence retrieval.''
             [(''reference_detected'', PBool True)]))"
    by (simp add: reference_step_def annex_facts)
  have "validate_row row RuleConfig_default = Some (finding row ''NEEDS_EVIDENCE''
             ''Answer references an attachment/section; requires document evidence retrieval.''
             [(''reference_detected'', PBool True)])"
    using assms(3)
    by (simp add: validate_row_def Let_def assms(1) assms(2) annex_facts strip_Nil
          s1 s2 s3 s4 s5 s6 s7 s8 s9 s10 s11)
  then show ?thesis by (simp add: finding_def)
qed

theorem annex_needs_evidence_witness:
  "answer_text row_annex = ''See attachment Annex 3'' \<and> expected_text row_annex = []
   \<and> should_validate row_annex \<and> \<not> is_signature_row row_annex
   \<and> \<not> is_allgemeiner_sheet (sheet row_annex)
   \<and> (\<exists>f. validate_row row_annex RuleConfig_default = Some f \<and> status f = ''NEEDS_EVIDENCE'')"
proof -
  have h1: "answer_text row_annex = ''See attachment Annex 3''" by code_simp
  have h2: "expected_text row_annex = []" by code_simp
  have h3: "should_validate row_annex" by code_simp
  have h4: "\<not> is_signature_row row_annex" by code_simp
  have g: "\<not> is_allgemeiner_sheet (sheet row_annex)" by code_simp
  then have h5: "\<not> (is_allgemeiner_sheet (sheet row_annex)
            \<and> list_ex (\<lambda>k. str_in k (lower (question_text row_annex)))
                 [''e-mail'', ''email'', ''telefon'', ''phone'', ''website'', ''web''])" by simp
  from annex_needs_evidence [OF h1 h2 h3 h4 h5] h1 h2 h3 h4 g show ?thesis by blast
qed

section \<open>Sheet categories\<close>

lemma keyword_lower:
  "lower ''allgemein'' = ''allgemein''" "lower ''general'' = ''general''"
  "lower ''fondsmanagement'' = ''fondsmanagement''" "lower ''fund management'' = ''fund management''"
  "lower ''innenrevision'' = ''innenrevision''" "lower ''regta'' = ''regta''"
  "lower ''zv'' = ''zv''" "lower ''fobu'' = ''fobu''" "lower ''verwahrstelle'' = ''verwahrstelle''"
  by code_simp+

text \<open>
  Claim C3, as stated, fails: the classifiers for the internal-audit and custodian
  categories look for the German words only, and the one for the general category also
  accepts "allgemein".
\<close>

theorem sheet_classifier_counterexample:
  "ci_substring ''custodian'' ''Custodian'' \<and> \<not> is_verwahrstelle_sheet ''Custodian''
   \<and> ci_substring ''internal audit'' ''Internal Audit'' \<and> \<not> is_innenrevision_sheet ''Internal Audit''
   \<and> is_allgemeiner_sheet ''Allgemeines'' \<and> \<not> ci_substring ''general'' ''Allgemeines''"
  by code_simp

text \<open>
  Claim C3, amended. For every sheet name, each sheet-category classifier holds exactly
  when the name contains the category's keyword as a case-insensitive substring:
  "allgemein" or "general" for the general category, "fondsmanagement" or
  "fund management" for fund management, "innenrevision" for internal audit, "regta" for
  regta, both "zv" and "fobu" for the zv+fobu category, and "verwahrstelle" for the
  custodian category.
\<close>

theorem sheet_classifier_keywords:
  "(is_allgemeiner_sheet s \<longleftrightarrow> ci_substring ''allgemein'' s \<or> ci_substring ''general'' s)
   \<and> (is_fondsmanagement_sheet s
        \<longleftrightarrow> ci_substring ''fondsmanagement'' s \<or> ci_substring ''fund management'' s)
   \<and> (is_innenrevision_sheet s \<longleftrightarrow> ci_substring ''innenrevision'' s)
   \<and> (is_regta_sheet s \<longleftrightarrow> ci_substring ''regta'' s)
   \<and> (is_zv_fobu_sheet s \<longleftrightarrow> ci_substring ''zv'' s \<and> ci_substring ''fobu'' s)
   \<and> (is_verwahrstelle_sheet s \<longleftrightarrow> ci_substring ''verwahrstelle'' s)"
  by (simp add: is_allgemeiner_sheet_def is_fondsmanagement_sheet_def is_innenrevision_sheet_def
        is_regta_sheet_def is_zv_fobu_sheet_def is_verwahrstelle_sheet_def Let_def
        str_in_lower_ci [OF keyword_lower(1)] str_in_lower_ci [OF keyword_lower(2)]
        str_in_lower_ci [OF keyword_lower(3)] str_in_lower_ci [OF keyword_lower(4)]
        str_in_lower_ci [OF keyword_lower(5)] str_in_lower_ci [OF keyword_lower(6)]
        str_in_lower_ci [OF keyword_lower(7)] str_in_lower_ci [OF keyword_lower(8)]
        str_in_lower_ci [OF keyword_lower(9)])

theorem sheet_classifier_keywords_witness:
  "ci_substring ''verwahrstelle'' ''DDQ Verwahrstelle'' \<and> is_verwahrstelle_sheet ''DDQ Verwahrstelle''
   \<and> \<not> ci_substring ''regta'' ''DDQ Verwahrstelle'' \<and> \<not> is_regta_sheet ''DDQ Verwahrstelle''"
proof -
  have h1: "ci_substring ''verwahrstelle'' ''DDQ Verwahrstelle''" by code_simp
  have h2: "\<not> ci_substring ''regta'' ''DDQ Verwahrstelle''" by code_simp
  from sheet_classifier_keywords [of "''DDQ Verwahrstelle''"] h1 h2 show ?thesis by blast
qed

section \<open>The disallow-reference and disallow-refusal checks of the four categories\<close>

text \<open>
  Claim C1, as stated, fails: \<open>row_regta_policy\<close> is a regta row whose expected text
  disallows references and whose answer "See policy" holds a reference and mentions
  "policy"; the regta branch rejects it. On a fund-management sheet the same row
  (\<open>row_fund_policy\<close>) is not rejected by the disallow-reference check and ends as
  \<open>NEEDS_EVIDENCE\<close>.
\<close>

theorem regta_policy_counterexample:
  "is_regta_sheet (sheet row_regta_policy)
   \<and> expected_disallow_reference (strip (expected_text row_regta_policy))
   \<and> detect_reference (strip (answer_text row_regta_policy))
   \<and> str_in ''policy'' (lower (strip (answer_text row_regta_policy)))
   \<and> validate_row row_regta_policy RuleConfig_default = Some (reference_only row_regta_policy)
   \<and> status (reference_only row_regta_policy) = ''REJECTED''
   \<and> is_fondsmanagement_sheet (sheet row_fund_policy)
   \<and> row_fund_policy = row_regta_policy\<lparr>sheet := ''Fund Management''\<rparr>
   \<and> validate_row row_fund_policy RuleConfig_default =
       Some (finding row_fund_policy ''NEEDS_EVIDENCE''
         ''Answer references an attachment/section; requires document evidence retrieval.''
         [(''reference_detected'', PBool True)])"
  by code_simp

text \<open>
  Claim C1, amended. For every row that reaches the sheet-specific checks and whose sheet
  is in the regta, zv+fobu or custodian category (and not also in the fund-management
  category), \<open>validate_row\<close> applies the disallow-refusal check of the fund-management branch
  and its disallow-reference check without the "policy" exemption, which only the
  fund-management branch has: when the expected text disallows document references and a
  reference is detected in the answer, the row is \<open>REJECTED\<close> whether or not the answer
  mentions "policy". The theorem covers the fund-management rows too, so that the two
  behaviours stand side by side; \<open>a\<close> and \<open>e\<close> are the trimmed answer and expected text.
\<close>

theorem sheet_checks_differ_by_policy_only:
  fixes row :: QuestionRow and cfg :: RuleConfig
  defines "a \<equiv> strip (answer_text row)" and "e \<equiv> strip (expected_text row)"
  assumes sv: "should_validate row"
    and s1: "signature_step row a cfg = Continue"
    and s2: "empty_step row a (is_mandatory row) = Continue"
    and s3: "forbidden_step row a (is_mandatory row) cfg = Continue"
    and s4: "filename_step row a e = Continue"
    and s5: "allgemeiner_step row a e = Continue"
    and cat: "is_fondsmanagement_sheet (sheet row)
              \<noteq> (is_regta_sheet (sheet row) \<or> is_zv_fobu_sheet (sheet row)
                 \<or> is_verwahrstelle_sheet (sheet row))"
  shows "validate_row row cfg =
           (if expected_disallow_reference e \<and> detect_reference a
               \<and> \<not> (is_fondsmanagement_sheet (sheet row) \<and> str_in ''policy'' (lower a))
            then Some (reference_only row)
            else if expected_disallow_refusal e \<and> re_search REFUSAL_PAT a
            then Some (refusal row)
            else first_return [innenrevision_step row a e, reference_step row a,
                               yes_no_step row a e, descriptive_step row a e cfg])
         \<and> status (reference_only row) = ''REJECTED'' \<and> status (refusal row) = ''REJECTED''"
proof -
  have st: "status (reference_only row) = ''REJECTED'' \<and> status (refusal row) = ''REJECTED''"
    by (simp add: reference_only_def refusal_def finding_def)
  have "validate_row row cfg =
      first_return [fondsmanagement_step row a e, regta_step row a e, zv_fobu_step row a e,
                    verwahrstelle_step row a e, innenrevision_step row a e, reference_step row a,
                    yes_no_step row a e, descriptive_step row a e cfg]"
    using sv s1 s2 s3 s4 s5 unfolding a_def e_def by (simp add: validate_row_def Let_def)
  also have "\<dots> = (if expected_disallow_reference e \<and> detect_reference a
               \<and> \<not> (is_fondsmanagement_sheet (sheet row) \<and> str_in ''policy'' (lower a))
            then Some (reference_only row)
            else if expected_disallow_refusal e \<and> re_search REFUSAL_PAT a
            then Some (refusal row)
            else first_return [innenrevision_step row a e, reference_step row a,
                               yes_no_step row a e, descriptive_step row a e cfg])"
  proof (cases "is_fondsmanagement_sheet (sheet row)")
    case True
    with cat have "\<not> is_regta_sheet (sheet row)" "\<not> is_zv_fobu_sheet (sheet row)"
      "\<not> is_verwahrstelle_sheet (sheet row)" by auto
    with True show ?thesis
      by (simp add: fondsmanagement_step_def regta_step_def zv_fobu_step_def verwahrstelle_step_def)
  next
    case False
    with cat have "is_regta_sheet (sheet row) \<or> is_zv_fobu_sheet (sheet row)
                 \<or> is_verwahrstelle_sheet (sheet row)" by simp
    with False show ?thesis
      by (auto simp add: fondsmanagement_step_def regta_step_def zv_fobu_step_def
            verwahrstelle_step_def)
  qed
  finally show ?thesis using st by simp
qed

theorem sheet_checks_differ_by_policy_only_witness:
  "should_validate row_regta_policy
   \<and> \<not> is_fondsmanagement_sheet (sheet row_regta_policy)
   \<and> is_regta_sheet (sheet row_regta_policy)
   \<and> expected_disallow_reference (strip (expected_text row_regta_policy))
   \<and> detect_reference (strip (answer_text row_regta_policy))
   \<and> str_in ''policy'' (lower (strip (answer_text row_regta_policy)))
   \<and> validate_row row_regta_policy RuleConfig_default = Some (reference_only row_regta_policy)"
proof -
  let ?a = "strip (answer_text row_regta_policy)"
  let ?e = "strip (expected_text row_regta_policy)"
  have sv: "should_validate row_regta_policy" by code_simp
  have s1: "signature_step row_regta_policy ?a RuleConfig_default = Continue" by code_simp
  have s2: "empty_step row_regta_policy ?a (is_mandatory row_regta_policy) = Continue" by code_simp
  have s3: "forbidden_step row_regta_policy ?a (is_mandatory row_regta_policy) RuleConfig_default
              = Continue" by code_simp
  have s4: "filename_step row_regta_policy ?a ?e = Continue" by code_simp
  have s5: "allgemeiner_step row_regta_policy ?a ?e = Continue" by code_simp
  have nf: "\<not> is_fondsmanagement_sheet (sheet row_regta_policy)" by code_simp
  have rg: "is_regta_sheet (sheet row_regta_policy)" by code_simp
  from nf rg have cat: "is_fondsmanagement_sheet (sheet row_regta_policy)
              \<noteq> (is_regta_sheet (sheet row_regta_policy) \<or> is_zv_fobu_sheet (sheet row_regta_policy)
                 \<or> is_verwahrstelle_sheet (sheet row_regta_policy))" by simp
  have dr: "expected_disallow_reference ?e" by code_simp
  have dt: "detect_reference ?a" by code_simp
  have po: "str_in ''policy'' (lower ?a)" by code_simp
  from sheet_checks_differ_by_policy_only [OF sv s1 s2 s3 s4 s5 cat] dr dt nf
  have "validate_row row_regta_policy RuleConfig_default = Some (reference_only row_regta_policy)"
    by simp
  with sv nf rg dr dt po show ?thesis by blast
qed

end
